theory Spec2Isabelle
  imports Main
begin

section \<open>The overlay reconciler of \<^verbatim>\<open>gpsd.py\<close>\<close>

text \<open>
  The development embeds \<^verbatim>\<open>find_dtoverlay_config\<close> and \<^verbatim>\<open>control_uart\<close> of
  \<^verbatim>\<open>src/software/gpsd/gpsd.py\<close>. Python exceptions are values of the type
  \<open>error\<close>; the calls that \<^verbatim>\<open>control_uart\<close> makes on the Balena SDK are
  recorded, in order, in a list of \<open>call\<close>s; the variable lists that the two
  \<^verbatim>\<open>get_all\<close> calls return are the fields of the record \<open>remote\<close>.
\<close>

subsection \<open>Strings\<close>

text \<open>
  A Python string is a \<open>string\<close>, a list of characters; the characters of
  the model are the code points 0 to 255.
\<close>

abbreviation dquote :: char where
  "dquote \<equiv> CHR 0x22"

abbreviation backslash :: char where
  "backslash \<equiv> CHR 0x5C"

definition startswith :: "string \<Rightarrow> string \<Rightarrow> bool" where
  \<comment> \<open>\<^verbatim>\<open>s.startswith(p)\<close>\<close>
  "startswith s p = (take (length p) s = p)"

definition endswith :: "string \<Rightarrow> string \<Rightarrow> bool" where
  \<comment> \<open>\<^verbatim>\<open>s.endswith(p)\<close>\<close>
  "endswith s p = (length p \<le> length s \<and> drop (length s - length p) s = p)"

fun join :: "string \<Rightarrow> string list \<Rightarrow> string" where
  \<comment> \<open>\<^verbatim>\<open>sep.join(xs)\<close>\<close>
  "join sep [] = []"
| "join sep [x] = x"
| "join sep (x # y # ys) = x @ sep @ join sep (y # ys)"

definition lower_char :: "char \<Rightarrow> char" where
  \<comment> \<open>\<^verbatim>\<open>str.lower\<close> on one character of the 8-bit range: A-Z and the
      upper-case letters of Latin-1 (the multiplication sign 0xD7 is not one).\<close>
  "lower_char c =
     (let n = (of_char c :: nat)
      in if (65 \<le> n \<and> n \<le> 90) \<or> (192 \<le> n \<and> n \<le> 222 \<and> n \<noteq> 215)
         then char_of (n + 32) else c)"

definition lower :: "string \<Rightarrow> string" where
  "lower s = map lower_char s"

fun str_nat :: "nat \<Rightarrow> string" where
  "str_nat n =
     (if n < 10 then [char_of (48 + n)]
      else str_nat (n div 10) @ [char_of (48 + n mod 10)])"

declare str_nat.simps [simp del]

definition str_int :: "int \<Rightarrow> string" where
  \<comment> \<open>\<^verbatim>\<open>str(i)\<close> for an integer: its decimal digits, with a sign when negative.\<close>
  "str_int i = (if i < 0 then CHR ''-'' # str_nat (nat (- i)) else str_nat (nat i))"

subsection \<open>Errors\<close>

text \<open>
  \<open>ValueError m\<close> is the \<^verbatim>\<open>ValueError\<close> that \<^verbatim>\<open>control_uart\<close> raises itself, with
  its message. \<open>TypeError\<close> is what \<^verbatim>\<open>None | {...}\<close> and \<^verbatim>\<open>None - {...}\<close> raise.
  \<open>JSONDecodeError\<close> is raised by \<^verbatim>\<open>json.loads\<close> on a malformed document.
  \<open>UnsupportedJSON\<close> is not a Python exception: it marks a document that leaves
  the fragment of JSON modelled below (see \<open>json_loads\<close>), about which the model
  says nothing.
\<close>

datatype error =
    ValueError string
  | TypeError
  | JSONDecodeError
  | UnsupportedJSON

subsection \<open>\<^verbatim>\<open>json.loads\<close> on arrays of strings\<close>

text \<open>
  \<^verbatim>\<open>find_dtoverlay_config\<close> calls \<^verbatim>\<open>json.loads("[" + value + "]")\<close> on a value
  that starts and ends with a double quote. The model follows the standard
  library's decoder (\<^verbatim>\<open>json/decoder.py\<close>: \<^verbatim>\<open>scanstring\<close> in strict mode,
  \<^verbatim>\<open>JSONArray\<close>, \<^verbatim>\<open>JSONDecoder.decode\<close>) on arrays whose elements are
  string literals without \<^verbatim>\<open>\u\<close> escapes. An element that starts like another
  JSON value (a number, a literal, an array, an object), a \<^verbatim>\<open>\u\<close> escape and a
  document that is not an array give \<open>UnsupportedJSON\<close>.
\<close>

definition is_ws :: "char \<Rightarrow> bool" where
  \<comment> \<open>the decoder's \<^verbatim>\<open>WHITESPACE_STR = ' \t\n\r'\<close>\<close>
  "is_ws c = (c = CHR '' '' \<or> c = CHR 0x09 \<or> c = CHR 0x0A \<or> c = CHR 0x0D)"

definition skip_ws :: "string \<Rightarrow> string" where
  "skip_ws s = dropWhile is_ws s"

definition BACKSLASH :: "char \<Rightarrow> char option" where
  \<comment> \<open>the decoder's table of one-letter escapes\<close>
  "BACKSLASH e =
     (if e = dquote then Some dquote
      else if e = backslash then Some backslash
      else if e = CHR ''/'' then Some (CHR ''/'')
      else if e = CHR ''b'' then Some (CHR 0x08)
      else if e = CHR ''f'' then Some (CHR 0x0C)
      else if e = CHR ''n'' then Some (CHR 0x0A)
      else if e = CHR ''r'' then Some (CHR 0x0D)
      else if e = CHR ''t'' then Some (CHR 0x09)
      else None)"

fun scanstring :: "string \<Rightarrow> error + string \<times> string" where
  \<comment> \<open>the input starts after the opening quote; the result is the decoded
      string and the input left after the closing quote\<close>
  "scanstring [] = Inl JSONDecodeError"
| "scanstring (c # cs) =
     (if c = dquote then Inr ([], cs)
      else if c = backslash then
        (case cs of
           [] \<Rightarrow> Inl JSONDecodeError
         | e # cs' \<Rightarrow>
             if e = CHR ''u'' then Inl UnsupportedJSON
             else (case BACKSLASH e of
                     None \<Rightarrow> Inl JSONDecodeError
                   | Some x \<Rightarrow>
                       (case scanstring cs' of
                          Inl err \<Rightarrow> Inl err
                        | Inr (t, rest) \<Rightarrow> Inr (x # t, rest))))
      else if (of_char c :: nat) < 32 then Inl JSONDecodeError
      else (case scanstring cs of
              Inl err \<Rightarrow> Inl err
            | Inr (t, rest) \<Rightarrow> Inr (c # t, rest)))"

definition starts_other_value :: "char \<Rightarrow> bool" where
  \<comment> \<open>the first characters on which \<^verbatim>\<open>scan_once\<close> tries a value that is not a
      string: an object, an array, \<^verbatim>\<open>null\<close>, \<^verbatim>\<open>true\<close>, \<^verbatim>\<open>false\<close>, a number,
      \<^verbatim>\<open>NaN\<close>, \<^verbatim>\<open>Infinity\<close>, \<^verbatim>\<open>-Infinity\<close>\<close>
  "starts_other_value c = (c \<in> set ''{[ntf-0123456789NI'')"

lemma scanstring_shorter:
  "scanstring s = Inr (t, rest) \<Longrightarrow> length rest < length s"
proof (induction s arbitrary: t rest rule: scanstring.induct)
  case 1
  then show ?case by simp
next
  case (2 c cs)
  then show ?case
    by (fastforce split: if_splits list.splits option.splits sum.splits)
qed

lemma skip_ws_length: "length (skip_ws s) \<le> length s"
  by (simp add: skip_ws_def length_dropWhile_le)

function array_values :: "string \<Rightarrow> error + string list \<times> string" where
  \<comment> \<open>the loop of \<^verbatim>\<open>JSONArray\<close>: the input starts at an element\<close>
  "array_values s =
     (case s of
        [] \<Rightarrow> Inl JSONDecodeError
      | c # cs \<Rightarrow>
          if c = dquote then
            (case scanstring cs of
               Inl err \<Rightarrow> Inl err
             | Inr (v, r) \<Rightarrow>
                 (case skip_ws r of
                    [] \<Rightarrow> Inl JSONDecodeError
                  | d # r' \<Rightarrow>
                      if d = CHR '']'' then Inr ([v], r')
                      else if d = CHR '','' then
                        (case array_values (skip_ws r') of
                           Inl err \<Rightarrow> Inl err
                         | Inr (vs, r'') \<Rightarrow> Inr (v # vs, r''))
                      else Inl JSONDecodeError))
          else if starts_other_value c then Inl UnsupportedJSON
          else Inl JSONDecodeError)"
  by pat_completeness auto
termination
proof (relation "measure length")
  show "wf (measure length)" by simp
next
  fix s :: string and c cs x v r d r'
  assume s: "s = c # cs" and sc: "scanstring cs = Inr x" and x: "(v, r) = x"
    and sk: "skip_ws r = d # r'"
  from sc x have "length r < length cs"
    using scanstring_shorter [of cs v r] by simp
  moreover have "length (skip_ws r) \<le> length r" by (rule skip_ws_length)
  moreover have "length (skip_ws r') \<le> length r'" by (rule skip_ws_length)
  ultimately show "(skip_ws r', s) \<in> measure length"
    using s sk by simp
qed

declare array_values.simps [simp del]

definition JSONArray :: "string \<Rightarrow> error + string list \<times> string" where
  \<comment> \<open>the input starts after the opening bracket\<close>
  "JSONArray s =
     (case skip_ws s of
        [] \<Rightarrow> Inl JSONDecodeError
      | c # cs \<Rightarrow> if c = CHR '']'' then Inr ([], cs) else array_values (c # cs))"

definition json_loads :: "string \<Rightarrow> error + string list" where
  \<comment> \<open>\<^verbatim>\<open>json.loads(s)\<close>: one value, then nothing but whitespace\<close>
  "json_loads s =
     (case skip_ws s of
        [] \<Rightarrow> Inl JSONDecodeError
      | c # cs \<Rightarrow>
          if c = CHR ''['' then
            (case JSONArray cs of
               Inl err \<Rightarrow> Inl err
             | Inr (vs, rest) \<Rightarrow>
                 if skip_ws rest = [] then Inr vs else Inl JSONDecodeError)
          else if c = dquote \<or> starts_other_value c then Inl UnsupportedJSON
          else Inl JSONDecodeError)"

subsection \<open>Configuration variables and overlay sets\<close>

text \<open>
  A configuration variable as the Balena SDK returns it: a dictionary with the
  keys \<^verbatim>\<open>id\<close> (an integer), \<^verbatim>\<open>name\<close> and \<^verbatim>\<open>value\<close> (strings). A Python
  set of strings is a \<open>string set\<close>.
\<close>

record variable =
  var_id :: int
  var_name :: string
  var_value :: string

definition UART_OVERLAY :: string where
  "UART_OVERLAY = ''disable-bt''"

definition decode_value :: "string \<Rightarrow> error + string set" where
  \<comment> \<open>lines 104 to 107: a value in quotes is the body of a JSON list, any other
      value is one overlay name\<close>
  "decode_value v =
     (if startswith v [dquote] \<and> endswith v [dquote] then
        (case json_loads (''['' @ v @ '']'') of
           Inl err \<Rightarrow> Inl err
         | Inr xs \<Rightarrow> Inr (set xs))
      else Inr {v})"

definition is_dtoverlay :: "variable \<Rightarrow> bool" where
  \<comment> \<open>line 101\<close>
  "is_dtoverlay variable =
     (var_name variable \<in> set [''BALENA_HOST_CONFIG_dtoverlay'', ''RESIN_HOST_CONFIG_dtoverlay''])"

fun find_loop ::
  "variable list \<Rightarrow> string set option \<times> string option \<Rightarrow>
     error + string set option \<times> string option" where
  \<comment> \<open>the loop of lines 100 to 107 on the pair
      \<open>(current_dt_overlay, dt_overlay_var_id)\<close>\<close>
  "find_loop [] acc = Inr acc"
| "find_loop (variable # variable_list) acc =
     (if is_dtoverlay variable then
        (case decode_value (var_value variable) of
           Inl err \<Rightarrow> Inl err
         | Inr current_dt_overlay \<Rightarrow>
             find_loop variable_list
               (Some current_dt_overlay, Some (str_int (var_id variable))))
      else find_loop variable_list acc)"

definition find_dtoverlay_config ::
  "variable list \<Rightarrow> error + string set option \<times> string option" where
  "find_dtoverlay_config variable_list = find_loop variable_list (None, None)"

subsection \<open>The remote configuration store and the calls on it\<close>

datatype scope = Device | Application

text \<open>
  The calls of the Balena SDK that touch the remote store. \<open>GetAll\<close>, \<open>Update\<close>
  and \<open>Create\<close> exist for both scopes (\<^verbatim>\<open>device_config_variable\<close> and
  \<^verbatim>\<open>application_config_variable\<close>); the arguments are those of the call.
\<close>

datatype call =
    Login "string option"
  | GetAll scope "string option"
  | Update scope "string option" string
  | Create scope "string option" string string

fun is_write :: "call \<Rightarrow> bool" where
  "is_write (Update sc i v) = True"
| "is_write (Create sc u n v) = True"
| "is_write c = False"

fun call_scope :: "call \<Rightarrow> scope option" where
  "call_scope (Login k) = None"
| "call_scope (GetAll sc u) = Some sc"
| "call_scope (Update sc i v) = Some sc"
| "call_scope (Create sc u n v) = Some sc"

record environ =
  BALENA_API_KEY :: "string option"
  BALENA_DEVICE_UUID :: "string option"
  BALENA_APP_ID :: "string option"

record remote =
  device_vars :: "variable list"
  app_vars :: "variable list"

datatype outcome = Unchanged | Updated string | Created string

subsection \<open>\<^verbatim>\<open>control_uart\<close>\<close>

definition effective_current ::
  "string set option \<Rightarrow> string set option \<Rightarrow> bool \<times> string set option" where
  \<comment> \<open>lines 140 to 147: \<open>(device_overlay_exists, current_dt_overlays)\<close>\<close>
  "effective_current device_dt_overlays app_dt_overlays =
     (if device_dt_overlays \<noteq> None then (True, device_dt_overlays)
      else if app_dt_overlays \<noteq> None then (False, app_dt_overlays)
      else (False, None))"

definition set_or :: "string set option \<Rightarrow> string set \<Rightarrow> error + string set" where
  \<comment> \<open>\<^verbatim>\<open>a | b\<close> with \<open>b\<close> a set: \<^verbatim>\<open>None\<close> has no such operator\<close>
  "set_or a b = (case a of None \<Rightarrow> Inl TypeError | Some A \<Rightarrow> Inr (A \<union> b))"

definition set_sub :: "string set option \<Rightarrow> string set \<Rightarrow> error + string set" where
  \<comment> \<open>\<^verbatim>\<open>a - b\<close> with \<open>b\<close> a set\<close>
  "set_sub a b = (case a of None \<Rightarrow> Inl TypeError | Some A \<Rightarrow> Inr (A - b))"

definition new_dt_overlay :: "string \<Rightarrow> string set option \<Rightarrow> error + string set" where
  \<comment> \<open>lines 149 to 152\<close>
  "new_dt_overlay control current_dt_overlays =
     (if lower control = ''enable'' then set_or current_dt_overlays {UART_OVERLAY}
      else set_sub current_dt_overlays {UART_OVERLAY})"

definition dt_overlay_string :: "string list \<Rightarrow> string" where
  \<comment> \<open>line 158, on the elements of the set in the order the iteration yields them\<close>
  "dt_overlay_string xs =
     join '','' (map (\<lambda>dt_overlay. [dquote] @ dt_overlay @ [dquote])
                   (filter (\<lambda>dt_overlay. dt_overlay \<noteq> []) xs))"

text \<open>
  Python does not fix the order in which a set is iterated. \<open>control_uart\<close>
  iterates one set, at line 158; the parameter \<open>iter\<close> gives the list that this
  iteration yields. The statements below that depend on the written string
  assume of \<open>iter\<close> only that it lists the elements of that set once each.

  The SDK calls are taken to succeed: \<^verbatim>\<open>get_all\<close> returns the lists of the
  record \<open>remote\<close>. The result is what the function prints last, or the
  exception, together with the calls made up to there.
\<close>

definition reconcile ::
  "(string set \<Rightarrow> string list) \<Rightarrow> string option \<Rightarrow> string \<Rightarrow>
     string set option \<times> string option \<Rightarrow> string set option \<Rightarrow>
     (error + outcome) \<times> call list" where
  \<comment> \<open>lines 140 to 168, with the calls made there\<close>
  "reconcile iter device_uuid control dev app_dt_overlays =
     (let (device_dt_overlays, dt_overlay_var_id) = dev;
          (device_overlay_exists, current_dt_overlays) =
             effective_current device_dt_overlays app_dt_overlays
      in (case new_dt_overlay control current_dt_overlays of
            Inl err \<Rightarrow> (Inl err, [])
          | Inr new \<Rightarrow>
              if Some new = current_dt_overlays then (Inr Unchanged, [])
              else
                (let s = dt_overlay_string (iter new)
                 in if device_overlay_exists then
                      (Inr (Updated s), [Update Device dt_overlay_var_id s])
                    else
                      (Inr (Created s),
                       [Create Device device_uuid ''BALENA_HOST_CONFIG_dtoverlay'' s]))))"

definition control_uart ::
  "(string set \<Rightarrow> string list) \<Rightarrow> environ \<Rightarrow> remote \<Rightarrow> string \<Rightarrow>
     (error + outcome) \<times> call list" where
  "control_uart iter env balena control =
     (if control \<notin> set [''enable'', ''disable''] then
        (Inl (ValueError (''Unrecognized control parameter: '' @ control)), [])
      else
        (let device_uuid = BALENA_DEVICE_UUID env;
             app_id = BALENA_APP_ID env;
             calls1 = [Login (BALENA_API_KEY env), GetAll Device device_uuid];
             calls2 = calls1 @ [GetAll Application app_id]
         in (case find_dtoverlay_config (device_vars balena) of
               Inl err \<Rightarrow> (Inl err, calls1)
             | Inr dev \<Rightarrow>
                 (case find_dtoverlay_config (app_vars balena) of
                    Inl err \<Rightarrow> (Inl err, calls2)
                  | Inr app \<Rightarrow>
                      (let (result, writes) = reconcile iter device_uuid control dev (fst app)
                       in (result, calls2 @ writes))))))"

subsection \<open>Notions used in the statements\<close>

text \<open>
  The definitions of this subsection are not part of the program: they name
  what the properties below speak about.
\<close>

definition json_safe :: "char \<Rightarrow> bool" where
  \<comment> \<open>a character that a JSON string literal holds as it is: not the quote, not
      the backslash, not a control character\<close>
  "json_safe c = (c \<noteq> dquote \<and> c \<noteq> backslash \<and> \<not> (of_char c :: nat) < 32)"

definition alnum_hyphen :: "char \<Rightarrow> bool" where
  \<comment> \<open>the alphabet of the overlay names of the specification: letters, digits
      and the hyphen\<close>
  "alnum_hyphen c =
     (c \<in> set ''abcdefghijklmnopqrstuvwxyzABCDEFGHIJKLMNOPQRSTUVWXYZ0123456789-'')"

definition last_dtoverlay :: "variable list \<Rightarrow> variable option" where
  \<comment> \<open>the last entry of the sequence whose name is one of the two aliases\<close>
  "last_dtoverlay variable_list =
     (case rev (filter is_dtoverlay variable_list) of [] \<Rightarrow> None | v # vs \<Rightarrow> Some v)"

definition reads :: "environ \<Rightarrow> call list" where
  \<comment> \<open>the calls of lines 124 to 137: the login and the two reads\<close>
  "reads env =
     [Login (BALENA_API_KEY env), GetAll Device (BALENA_DEVICE_UUID env),
      GetAll Application (BALENA_APP_ID env)]"

section \<open>Properties\<close>

subsection \<open>Decoding what was encoded\<close>

lemma alnum_hyphen_safe: "alnum_hyphen c \<Longrightarrow> json_safe c"
  by (auto simp: alnum_hyphen_def json_safe_def)

lemma scanstring_safe:
  "list_all json_safe t \<Longrightarrow> scanstring (t @ dquote # rest) = Inr (t, rest)"
  by (induction t) (simp_all add: json_safe_def)

lemma skip_ws_Cons: "\<not> is_ws c \<Longrightarrow> skip_ws (c # s) = c # s"
  by (simp add: skip_ws_def)

lemma join_Cons: "join sep (x # xs) = x @ (if xs = [] then [] else sep @ join sep xs)"
  by (cases xs) simp_all

lemma array_values_quoted:
  "xs \<noteq> [] \<Longrightarrow> list_all (list_all json_safe) xs \<Longrightarrow>
     array_values (join '','' (map (\<lambda>t. dquote # t @ [dquote]) xs) @ CHR '']'' # rest)
       = Inr (xs, rest)"
proof (induction xs rule: list_nonempty_induct)
  case (single x)
  then show ?case
    by (simp add: array_values.simps [of "dquote # _"] scanstring_safe skip_ws_Cons is_ws_def)
next
  case (cons x xs)
  have "array_values (dquote # x @ dquote # CHR '','' #
          join '','' (map (\<lambda>t. dquote # t @ [dquote]) xs) @ CHR '']'' # rest)
        = Inr (x # xs, rest)"
  proof -
    obtain y ys where xs: "xs = y # ys" using cons.hyps by (cases xs) auto
    have start: "skip_ws (join '','' (map (\<lambda>t. dquote # t @ [dquote]) xs) @ CHR '']'' # rest)
        = join '','' (map (\<lambda>t. dquote # t @ [dquote]) xs) @ CHR '']'' # rest"
      unfolding xs by (simp add: join_Cons skip_ws_Cons is_ws_def del: join.simps)
    show ?thesis
      using cons.prems cons.IH
      by (subst array_values.simps)
         (simp add: scanstring_safe skip_ws_Cons is_ws_def start del: join.simps)
  qed
  then show ?case
    using cons.hyps by (simp add: join_Cons del: join.simps)
qed

lemma json_loads_quoted:
  "xs \<noteq> [] \<Longrightarrow> list_all (list_all json_safe) xs \<Longrightarrow>
     json_loads (''['' @ join '','' (map (\<lambda>t. dquote # t @ [dquote]) xs) @ '']'') = Inr xs"
proof -
  assume ne: "xs \<noteq> []" and safe: "list_all (list_all json_safe) xs"
  obtain y ys where xs: "xs = y # ys" using ne by (cases xs) auto
  have start: "skip_ws (join '','' (map (\<lambda>t. dquote # t @ [dquote]) xs) @ '']'')
      = join '','' (map (\<lambda>t. dquote # t @ [dquote]) xs) @ '']''"
    unfolding xs by (simp add: join_Cons skip_ws_Cons is_ws_def del: join.simps)
  have hd: "\<exists>tl. join '','' (map (\<lambda>t. dquote # t @ [dquote]) xs) @ '']'' = dquote # tl"
    unfolding xs by (simp add: join_Cons del: join.simps)
  then obtain tl where tl: "join '','' (map (\<lambda>t. dquote # t @ [dquote]) xs) @ '']'' = dquote # tl"
    by blast
  have "JSONArray (join '','' (map (\<lambda>t. dquote # t @ [dquote]) xs) @ '']'') = Inr (xs, [])"
    using array_values_quoted [OF ne safe, of "[]"] start tl
    by (simp add: JSONArray_def)
  then show ?thesis
    by (simp add: json_loads_def skip_ws_def is_ws_def)
qed

lemma drop_last: "s \<noteq> [] \<Longrightarrow> drop (length s - Suc 0) s = [last s]"
  by (induction s rule: rev_induct) simp_all

lemma join_quoted_shape:
  "ys \<noteq> [] \<Longrightarrow>
     (\<exists>tl. join '','' (map (\<lambda>t. dquote # t @ [dquote]) ys) = dquote # tl) \<and>
     last (join '','' (map (\<lambda>t. dquote # t @ [dquote]) ys)) = dquote"
proof (induction ys rule: list_nonempty_induct)
  case (single x)
  then show ?case by simp
next
  case (cons x xs)
  then show ?case by (auto simp: join_Cons simp del: join.simps)
qed

text \<open>
  Decoding an encoded list gives back its non-empty tokens, as long as no token
  holds a quote, a backslash or a control character and one token at least is
  not empty.
\<close>

lemma decode_dt_overlay_string:
  assumes safe: "list_all (list_all json_safe) xs"
    and ne: "filter (\<lambda>t. t \<noteq> []) xs \<noteq> []"
  shows "decode_value (dt_overlay_string xs) = Inr (set xs - {[]})"
proof -
  let ?ys = "filter (\<lambda>t. t \<noteq> []) xs"
  let ?s = "join '','' (map (\<lambda>t. dquote # t @ [dquote]) ?ys)"
  have s: "dt_overlay_string xs = ?s" by (simp add: dt_overlay_string_def)
  from join_quoted_shape [OF ne] obtain tl where tl: "?s = dquote # tl"
    and lst: "last ?s = dquote" by blast
  have sw: "startswith ?s [dquote]" using tl by (simp add: startswith_def)
  have "?s \<noteq> []" using tl by simp
  then have ew: "endswith ?s [dquote]"
    using lst drop_last [of ?s] by (cases ?s) (simp_all add: endswith_def)
  have safe': "list_all (list_all json_safe) ?ys"
    using safe by (auto simp: list_all_iff)
  have "json_loads (''['' @ ?s @ '']'') = Inr ?ys"
    by (rule json_loads_quoted [OF ne safe'])
  moreover have "set ?ys = set xs - {[]}" by auto
  ultimately show ?thesis
    using sw ew by (simp add: decode_value_def s)
qed

text \<open>
  Claim C7 (decode/encode round trip). Let \<open>S\<close> be a non-empty set of tokens, each a
  non-empty string of letters, digits and hyphens, and let \<open>xs\<close> list the
  elements of \<open>S\<close> in the order the iteration of line 158 yields them, whatever
  that order is. Decoding the encoded form of \<open>S\<close> (the tokens in double quotes,
  separated by commas, no brackets) succeeds and gives \<open>S\<close> again.
\<close>

theorem decode_encode_roundtrip:
  assumes "S \<noteq> {}" and "set xs = S"
    and "\<forall>t\<in>S. t \<noteq> [] \<and> list_all alnum_hyphen t"
  shows "decode_value (dt_overlay_string xs) = Inr S"
proof -
  have safe: "list_all (list_all json_safe) xs"
    using assms by (auto simp: list_all_iff alnum_hyphen_safe)
  have all_ne: "filter (\<lambda>t. t \<noteq> []) xs = xs"
    using assms by (auto simp: filter_id_conv)
  have "xs \<noteq> []" using assms by auto
  with all_ne have ne: "filter (\<lambda>t. t \<noteq> []) xs \<noteq> []" by simp
  have "[] \<notin> set xs" using assms by auto
  then have "set xs - {[]} = S" using assms by auto
  with decode_dt_overlay_string [OF safe ne] show ?thesis by simp
qed

theorem decode_encode_roundtrip_witness:
  "decode_value (dt_overlay_string [''vc4-kms-v3d'', ''disable-bt''])
     = Inr {''vc4-kms-v3d'', ''disable-bt''}"
  using decode_encode_roundtrip
    [of "{''vc4-kms-v3d'', ''disable-bt''}" "[''vc4-kms-v3d'', ''disable-bt'']"]
  by (simp add: alnum_hyphen_def)

text \<open>
  Claim C10 (no round trip at the empty set). The empty overlay set is encoded
  as the empty string, and the empty string is decoded as the set whose one
  element is the empty string, which is not the empty set.
\<close>

theorem empty_set_not_roundtrip:
  "dt_overlay_string [] = [] \<and> decode_value [] = Inr {[]}
     \<and> decode_value (dt_overlay_string []) \<noteq> Inr {}"
  by (simp add: dt_overlay_string_def decode_value_def startswith_def)

subsection \<open>Which errors can arise\<close>

lemma scanstring_error:
  "scanstring s = Inl e \<Longrightarrow> e = JSONDecodeError \<or> e = UnsupportedJSON"
proof (induction s rule: scanstring.induct)
  case 1
  then show ?case by simp
next
  case (2 c cs)
  then show ?case
    by (auto split: if_splits list.splits option.splits sum.splits)
qed

lemma array_values_error:
  "array_values s = Inl e \<Longrightarrow> e = JSONDecodeError \<or> e = UnsupportedJSON"
proof (induction s rule: array_values.induct)
  case (1 s)
  from "1.prems" show ?case
    apply (subst (asm) array_values.simps)
    apply (auto split: list.splits if_splits sum.splits dest: scanstring_error "1.IH")
    done
qed

lemma json_loads_error:
  "json_loads s = Inl e \<Longrightarrow> e = JSONDecodeError \<or> e = UnsupportedJSON"
  by (auto simp: json_loads_def JSONArray_def split: list.splits if_splits sum.splits
        dest: array_values_error)

lemma decode_value_error:
  "decode_value v = Inl e \<Longrightarrow> e = JSONDecodeError \<or> e = UnsupportedJSON"
  by (auto simp: decode_value_def split: if_splits sum.splits dest: json_loads_error)

lemma find_loop_error:
  "find_loop vars acc = Inl e \<Longrightarrow> e = JSONDecodeError \<or> e = UnsupportedJSON"
  by (induction vars acc rule: find_loop.induct)
     (auto split: if_splits sum.splits dest: decode_value_error)

lemma find_dtoverlay_config_error:
  "find_dtoverlay_config vars = Inl e \<Longrightarrow> e = JSONDecodeError \<or> e = UnsupportedJSON"
  by (auto simp: find_dtoverlay_config_def dest: find_loop_error)

lemma reconcile_error:
  "fst (reconcile iter u control dev app) = Inl e \<Longrightarrow> e = TypeError"
  by (auto simp: reconcile_def new_dt_overlay_def set_or_def set_sub_def Let_def
        split: prod.splits sum.splits if_splits option.splits)

lemma control_uart_valid:
  assumes "control \<in> set [''enable'', ''disable'']"
    and "find_dtoverlay_config (device_vars balena) = Inr dev"
    and "find_dtoverlay_config (app_vars balena) = Inr app"
  shows "control_uart iter env balena control =
           (fst (reconcile iter (BALENA_DEVICE_UUID env) control dev (fst app)),
            reads env @ snd (reconcile iter (BALENA_DEVICE_UUID env) control dev (fst app)))"
  using assms by (simp add: control_uart_def reads_def Let_def split: prod.splits)

subsection \<open>The control argument\<close>

text \<open>
  Claim C6 (invalid control). \<open>control_uart\<close> raises its \<^verbatim>\<open>ValueError\<close> exactly
  when the control argument is neither \<^verbatim>\<open>"enable"\<close> nor \<^verbatim>\<open>"disable"\<close>; when it
  does, the error carries the message of line 122 and no call on the remote
  store has been made: no login, no read, no write.
\<close>

theorem invalid_control:
  "((\<exists>m. fst (control_uart iter env balena control) = Inl (ValueError m))
      \<longleftrightarrow> control \<notin> {''enable'', ''disable''})
   \<and> (control \<notin> {''enable'', ''disable''} \<longrightarrow>
        control_uart iter env balena control =
          (Inl (ValueError (''Unrecognized control parameter: '' @ control)), []))"
proof (cases "control \<in> {''enable'', ''disable''}")
  case False
  then show ?thesis by (simp add: control_uart_def)
next
  case True
  have "fst (control_uart iter env balena control) \<noteq> Inl (ValueError m)" for m
  proof (cases "find_dtoverlay_config (device_vars balena)")
    case (Inl e)
    with True find_dtoverlay_config_error [OF Inl] show ?thesis
      by (auto simp: control_uart_def Let_def)
  next
    case dev: (Inr dev)
    show ?thesis
    proof (cases "find_dtoverlay_config (app_vars balena)")
      case (Inl e)
      with True dev find_dtoverlay_config_error [OF Inl] show ?thesis
        by (auto simp: control_uart_def Let_def)
    next
      case (Inr app)
      from True have v: "control \<in> set [''enable'', ''disable'']" by simp
      show ?thesis
        using reconcile_error [of iter "BALENA_DEVICE_UUID env" control dev "fst app"]
        by (auto simp: control_uart_valid [OF v dev Inr])
    qed
  qed
  with True show ?thesis by simp
qed

theorem invalid_control_witness:
  "control_uart (\<lambda>S. []) \<lparr>BALENA_API_KEY = None, BALENA_DEVICE_UUID = None, BALENA_APP_ID = None\<rparr>
     \<lparr>device_vars = [], app_vars = []\<rparr> ''Enable''
   = (Inl (ValueError ''Unrecognized control parameter: Enable''), [])"
  using invalid_control [of "\<lambda>S. []"
      "\<lparr>BALENA_API_KEY = None, BALENA_DEVICE_UUID = None, BALENA_APP_ID = None\<rparr>"
      "\<lparr>device_vars = [], app_vars = []\<rparr>" "''Enable''"]
  by simp

subsection \<open>No overlay variable in either scope\<close>

lemma find_loop_no_dtoverlay:
  "filter is_dtoverlay vars = [] \<Longrightarrow> find_loop vars acc = Inr acc"
  by (induction vars acc rule: find_loop.induct) (auto split: if_splits)

lemma control_uart_no_overlay:
  assumes "control \<in> set [''enable'', ''disable'']"
    and "filter is_dtoverlay (device_vars balena) = []"
    and "filter is_dtoverlay (app_vars balena) = []"
  shows "control_uart iter env balena control = (Inl TypeError, reads env)"
proof -
  have d: "find_dtoverlay_config (device_vars balena) = Inr (None, None)"
    using assms(2) by (simp add: find_dtoverlay_config_def find_loop_no_dtoverlay)
  have a: "find_dtoverlay_config (app_vars balena) = Inr (None, None)"
    using assms(3) by (simp add: find_dtoverlay_config_def find_loop_no_dtoverlay)
  show ?thesis
    by (simp add: control_uart_valid [OF assms(1) d a] reconcile_def effective_current_def
          new_dt_overlay_def set_or_def set_sub_def)
qed

text \<open>
  Claim C1 (enable, no overlay variable anywhere). The claim expects the current
  set to be treated as empty and a device variable with the value
  \<^verbatim>\<open>"disable-bt"\<close> to be created. At line 150 the code evaluates
  \<^verbatim>\<open>None | {UART_OVERLAY}\<close>, which raises \<^verbatim>\<open>TypeError\<close>: the calls made are the
  login and the two reads, and nothing is created.
\<close>

theorem enable_without_overlay_raises:
  "control_uart iter env
     \<lparr>device_vars = [\<lparr>var_id = 1, var_name = ''RESIN_HOST_CONFIG_gpu_mem'', var_value = ''16''\<rparr>],
      app_vars = []\<rparr> ''enable''
   = (Inl TypeError, reads env)"
  by (rule control_uart_no_overlay) (simp_all add: is_dtoverlay_def)

text \<open>
  Claim C2 (disable, no overlay variable anywhere). The claim expects a device
  variable with an empty value to be created. At line 152 the code evaluates
  \<^verbatim>\<open>None - {UART_OVERLAY}\<close>, which raises \<^verbatim>\<open>TypeError\<close> before the comparison
  of line 154: the skip branch is not reached and nothing is written.
\<close>

theorem disable_without_overlay_raises:
  "control_uart iter env
     \<lparr>device_vars = [\<lparr>var_id = 1, var_name = ''RESIN_HOST_CONFIG_gpu_mem'', var_value = ''16''\<rparr>],
      app_vars = []\<rparr> ''disable''
   = (Inl TypeError, reads env)"
  by (rule control_uart_no_overlay) (simp_all add: is_dtoverlay_def)

subsection \<open>Skipping the write\<close>

lemma reads_no_write: "filter is_write (reads env) = []"
  by (simp add: reads_def)

text \<open>
  Claim C3 (write-skip invariant). Let both scans succeed and let \<open>S\<close> be the
  effective current set. For \<^verbatim>\<open>enable\<close> and for \<^verbatim>\<open>disable\<close>, if adding
  (respectively removing) the overlay name gives \<open>S\<close> again, then
  \<open>control_uart\<close> reports that nothing changed and its calls are the login and
  the two reads: no update and no create.
\<close>

theorem write_skip:
  assumes "control \<in> {''enable'', ''disable''}"
    and "find_dtoverlay_config (device_vars balena) = Inr (device_dt_overlays, dt_overlay_var_id)"
    and "find_dtoverlay_config (app_vars balena) = Inr (app_dt_overlays, app_var_id)"
    and "snd (effective_current device_dt_overlays app_dt_overlays) = Some S"
    and "(if control = ''enable'' then S \<union> {UART_OVERLAY} else S - {UART_OVERLAY}) = S"
  shows "control_uart iter env balena control = (Inr Unchanged, reads env)
     \<and> filter is_write (snd (control_uart iter env balena control)) = []"
proof -
  from assms(1) have v: "control \<in> set [''enable'', ''disable'']" by simp
  from assms(1) have low: "(lower control = ''enable'') = (control = ''enable'')"
    by (auto simp: lower_def lower_char_def)
  obtain ex where cur: "effective_current device_dt_overlays app_dt_overlays = (ex, Some S)"
    using assms(4) by (cases "effective_current device_dt_overlays app_dt_overlays") simp
  have "reconcile iter (BALENA_DEVICE_UUID env) control
          (device_dt_overlays, dt_overlay_var_id) app_dt_overlays = (Inr Unchanged, [])"
    using assms(5) by (auto simp: reconcile_def cur new_dt_overlay_def low set_or_def set_sub_def
          split: if_splits)
  then show ?thesis
    by (simp add: control_uart_valid [OF v assms(2) assms(3)] reads_no_write)
qed


theorem write_skip_witness:
  "control_uart (\<lambda>S. []) \<lparr>BALENA_API_KEY = Some ''key'', BALENA_DEVICE_UUID = Some ''uuid'', BALENA_APP_ID = Some ''app''\<rparr>
     \<lparr>device_vars = [\<lparr>var_id = 7, var_name = ''BALENA_HOST_CONFIG_dtoverlay'',
                       var_value = [dquote] @ ''disable-bt'' @ [dquote]\<rparr>],
      app_vars = []\<rparr> ''enable''
   = (Inr Unchanged,
      [Login (Some ''key''), GetAll Device (Some ''uuid''), GetAll Application (Some ''app'')])"
proof -
  let ?r = "\<lparr>device_vars = [\<lparr>var_id = 7, var_name = ''BALENA_HOST_CONFIG_dtoverlay'',
                       var_value = [dquote] @ ''disable-bt'' @ [dquote]\<rparr>],
      app_vars = []\<rparr>"
  have d: "find_dtoverlay_config (device_vars ?r) = Inr (Some {''disable-bt''}, Some ''7'')"
    by code_simp
  have a: "find_dtoverlay_config (app_vars ?r) = Inr (None, None)"
    by code_simp
  have c: "snd (effective_current (Some {''disable-bt''}) None) = Some {''disable-bt''}"
    by (simp add: effective_current_def)
  have e: "(if ''enable'' = ''enable'' then {''disable-bt''} \<union> {UART_OVERLAY}
            else {''disable-bt''} - {UART_OVERLAY}) = {''disable-bt''}"
    by (simp add: UART_OVERLAY_def)
  show ?thesis
    using write_skip [OF _ d a c e, of "\<lambda>S. []"
        "\<lparr>BALENA_API_KEY = Some ''key'', BALENA_DEVICE_UUID = Some ''uuid'', BALENA_APP_ID = Some ''app''\<rparr>"]
    by (simp add: reads_def)
qed

subsection \<open>The scan of a variable list\<close>

lemma find_loop_append:
  "find_loop (xs @ ys) acc =
     (case find_loop xs acc of Inl e \<Rightarrow> Inl e | Inr acc' \<Rightarrow> find_loop ys acc')"
  by (induction xs acc rule: find_loop.induct) (auto split: sum.splits)

lemma last_dtoverlay_Nil: "last_dtoverlay [] = None"
  by (simp add: last_dtoverlay_def)

lemma last_dtoverlay_snoc:
  "last_dtoverlay (xs @ [x]) = (if is_dtoverlay x then Some x else last_dtoverlay xs)"
  by (simp add: last_dtoverlay_def)

lemma find_loop_last:
  "find_loop vars acc = Inr res \<Longrightarrow>
     (case last_dtoverlay vars of
        None \<Rightarrow> res = acc
      | Some v \<Rightarrow> \<exists>S. decode_value (var_value v) = Inr S
                       \<and> res = (Some S, Some (str_int (var_id v))))"
proof (induction vars arbitrary: res rule: rev_induct)
  case Nil
  then show ?case by (simp add: last_dtoverlay_Nil)
next
  case (snoc x xs)
  from snoc.prems obtain acc' where acc': "find_loop xs acc = Inr acc'"
    and step: "find_loop [x] acc' = Inr res"
    by (auto simp: find_loop_append split: sum.splits)
  show ?case
  proof (cases "is_dtoverlay x")
    case True
    with step show ?thesis
      by (auto simp: last_dtoverlay_snoc split: sum.splits)
  next
    case False
    with step have "res = acc'" by simp
    with snoc.IH [OF acc'] False show ?thesis
      by (auto simp: last_dtoverlay_snoc split: option.splits)
  qed
qed

lemma find_loop_total:
  "\<forall>v\<in>set vars. is_dtoverlay v \<longrightarrow> (\<exists>S. decode_value (var_value v) = Inr S) \<Longrightarrow>
     \<exists>res. find_loop vars acc = Inr res"
  by (induction vars acc rule: find_loop.induct) (auto split: sum.splits)

lemma find_dtoverlay_config_id:
  assumes "find_dtoverlay_config vars = Inr (d, i)"
  shows "i = map_option (\<lambda>v. str_int (var_id v)) (last_dtoverlay vars)"
    and "(d = None) = (last_dtoverlay vars = None)"
  using find_loop_last [of vars "(None, None)" "(d, i)"] assms
  by (auto simp: find_dtoverlay_config_def split: option.splits)

subsection \<open>The calls that are made\<close>

lemma reconcile_writes:
  "c \<in> set (snd (reconcile iter u control dev app)) \<Longrightarrow>
     (\<exists>s. c = Update Device (snd dev) s \<and> fst dev \<noteq> None)
     \<or> (\<exists>s. c = Create Device u ''BALENA_HOST_CONFIG_dtoverlay'' s \<and> fst dev = None)"
  by (auto simp: reconcile_def effective_current_def Let_def
        split: prod.splits sum.splits if_splits)

lemma control_uart_calls:
  assumes c: "c \<in> set (snd (control_uart iter env balena control))"
  shows "c \<in> set (reads env)
     \<or> (\<exists>dev app. find_dtoverlay_config (device_vars balena) = Inr dev
          \<and> c \<in> set (snd (reconcile iter (BALENA_DEVICE_UUID env) control dev app)))"
proof (cases "control \<in> set [''enable'', ''disable'']")
  case False
  with c show ?thesis by (simp add: control_uart_def)
next
  case True
  show ?thesis
  proof (cases "find_dtoverlay_config (device_vars balena)")
    case (Inl e)
    with c True show ?thesis by (auto simp: control_uart_def reads_def Let_def)
  next
    case dev: (Inr dev)
    show ?thesis
    proof (cases "find_dtoverlay_config (app_vars balena)")
      case (Inl e)
      with c True dev show ?thesis by (auto simp: control_uart_def reads_def Let_def)
    next
      case (Inr app)
      from c have "c \<in> set (reads env) \<or>
          c \<in> set (snd (reconcile iter (BALENA_DEVICE_UUID env) control dev (fst app)))"
        by (simp add: control_uart_valid [OF True dev Inr])
      with dev show ?thesis by blast
    qed
  qed
qed

text \<open>
  Claim C4 (device scope only, device precedence). Whatever the inputs, every
  write among the calls of \<open>control_uart\<close> is an update or a create in the
  device scope, never in the application scope. When both scopes hold an
  overlay set, the effective current set is the device-level one, and the run
  is the same as with no application-level variable at all.
\<close>

theorem device_scope_only:
  "(\<forall>c\<in>set (snd (control_uart iter env balena control)).
       is_write c \<longrightarrow> call_scope c = Some Device)
   \<and> effective_current (Some D) (Some A) = (True, Some D)
   \<and> (find_dtoverlay_config (device_vars balena) = Inr (Some D, dt_overlay_var_id)
        \<and> find_dtoverlay_config (app_vars balena) = Inr (Some A, app_var_id)
      \<longrightarrow> control_uart iter env balena control
            = control_uart iter env (balena\<lparr>app_vars := []\<rparr>) control)"
proof (intro conjI ballI impI)
  fix c
  assume "c \<in> set (snd (control_uart iter env balena control))" and "is_write c"
  then show "call_scope c = Some Device"
    using control_uart_calls [of c iter env balena control]
    by (auto simp: reads_def dest!: reconcile_writes)
next
  show "effective_current (Some D) (Some A) = (True, Some D)"
    by (simp add: effective_current_def)
next
  assume h: "find_dtoverlay_config (device_vars balena) = Inr (Some D, dt_overlay_var_id)
        \<and> find_dtoverlay_config (app_vars balena) = Inr (Some A, app_var_id)"
  show "control_uart iter env balena control
            = control_uart iter env (balena\<lparr>app_vars := []\<rparr>) control"
  proof (cases "control \<in> set [''enable'', ''disable'']")
    case False
    then show ?thesis by (simp add: control_uart_def)
  next
    case True
    have e: "find_dtoverlay_config (app_vars (balena\<lparr>app_vars := []\<rparr>)) = Inr (None, None)"
      by (simp add: find_dtoverlay_config_def)
    have d: "find_dtoverlay_config (device_vars (balena\<lparr>app_vars := []\<rparr>))
        = Inr (Some D, dt_overlay_var_id)"
      using h by simp
    have "reconcile iter (BALENA_DEVICE_UUID env) control (Some D, dt_overlay_var_id) (Some A)
        = reconcile iter (BALENA_DEVICE_UUID env) control (Some D, dt_overlay_var_id) None"
      by (simp add: reconcile_def effective_current_def)
    then show ?thesis
      using h by (simp add: control_uart_valid [OF True _ _] control_uart_valid [OF True d e])
  qed
qed


theorem device_scope_only_witness:
  "snd (control_uart (\<lambda>S. [''vc4-kms-v3d'', ''disable-bt''])
          \<lparr>BALENA_API_KEY = Some ''key'', BALENA_DEVICE_UUID = Some ''uuid'',
           BALENA_APP_ID = Some ''app''\<rparr>
          \<lparr>device_vars = [\<lparr>var_id = 7, var_name = ''BALENA_HOST_CONFIG_dtoverlay'',
                            var_value = ''vc4-kms-v3d''\<rparr>],
           app_vars = [\<lparr>var_id = 3, var_name = ''BALENA_HOST_CONFIG_dtoverlay'',
                         var_value = ''dwc2''\<rparr>]\<rparr> ''enable'')
     = [Login (Some ''key''), GetAll Device (Some ''uuid''), GetAll Application (Some ''app''),
        Update Device (Some ''7'')
          ([dquote] @ ''vc4-kms-v3d'' @ [dquote] @ '','' @ [dquote] @ ''disable-bt'' @ [dquote])]
   \<and> call_scope (Update Device (Some ''7'')
          ([dquote] @ ''vc4-kms-v3d'' @ [dquote] @ '','' @ [dquote] @ ''disable-bt'' @ [dquote]))
       = Some Device
   \<and> control_uart (\<lambda>S. [''vc4-kms-v3d'', ''disable-bt''])
          \<lparr>BALENA_API_KEY = Some ''key'', BALENA_DEVICE_UUID = Some ''uuid'',
           BALENA_APP_ID = Some ''app''\<rparr>
          \<lparr>device_vars = [\<lparr>var_id = 7, var_name = ''BALENA_HOST_CONFIG_dtoverlay'',
                            var_value = ''vc4-kms-v3d''\<rparr>],
           app_vars = [\<lparr>var_id = 3, var_name = ''BALENA_HOST_CONFIG_dtoverlay'',
                         var_value = ''dwc2''\<rparr>]\<rparr> ''enable''
     = control_uart (\<lambda>S. [''vc4-kms-v3d'', ''disable-bt''])
          \<lparr>BALENA_API_KEY = Some ''key'', BALENA_DEVICE_UUID = Some ''uuid'',
           BALENA_APP_ID = Some ''app''\<rparr>
          \<lparr>device_vars = [\<lparr>var_id = 7, var_name = ''BALENA_HOST_CONFIG_dtoverlay'',
                            var_value = ''vc4-kms-v3d''\<rparr>],
           app_vars = []\<rparr> ''enable''"
proof -
  let ?iter = "\<lambda>S :: string set. [''vc4-kms-v3d'', ''disable-bt'']"
  let ?env = "\<lparr>BALENA_API_KEY = Some ''key'', BALENA_DEVICE_UUID = Some ''uuid'',
           BALENA_APP_ID = Some ''app''\<rparr>"
  let ?r = "\<lparr>device_vars = [\<lparr>var_id = 7, var_name = ''BALENA_HOST_CONFIG_dtoverlay'',
                            var_value = ''vc4-kms-v3d''\<rparr>],
           app_vars = [\<lparr>var_id = 3, var_name = ''BALENA_HOST_CONFIG_dtoverlay'',
                         var_value = ''dwc2''\<rparr>]\<rparr>"
  have d: "find_dtoverlay_config (device_vars ?r) = Inr (Some {''vc4-kms-v3d''}, Some ''7'')"
    by code_simp
  have a: "find_dtoverlay_config (app_vars ?r) = Inr (Some {''dwc2''}, Some ''3'')"
    by code_simp
  have calls: "snd (control_uart ?iter ?env ?r ''enable'')
     = [Login (Some ''key''), GetAll Device (Some ''uuid''), GetAll Application (Some ''app''),
        Update Device (Some ''7'')
          ([dquote] @ ''vc4-kms-v3d'' @ [dquote] @ '','' @ [dquote] @ ''disable-bt'' @ [dquote])]"
    by code_simp
  from device_scope_only [of ?iter ?env ?r "''enable''" "{''vc4-kms-v3d''}" "{''dwc2''}"
      "Some ''7''" "Some ''3''"] d a
  have "(\<forall>c\<in>set (snd (control_uart ?iter ?env ?r ''enable'')).
           is_write c \<longrightarrow> call_scope c = Some Device)"
    and eq: "control_uart ?iter ?env ?r ''enable''
           = control_uart ?iter ?env (?r\<lparr>app_vars := []\<rparr>) ''enable''"
    by blast+
  then have "call_scope (Update Device (Some ''7'')
          ([dquote] @ ''vc4-kms-v3d'' @ [dquote] @ '','' @ [dquote] @ ''disable-bt'' @ [dquote]))
       = Some Device"
    unfolding calls by simp
  with calls eq show ?thesis by simp
qed

lemma singleton_iteration: "set xs = {a} \<Longrightarrow> distinct xs \<Longrightarrow> xs = [a]"
proof (cases xs)
  case Nil
  assume "set xs = {a}"
  with Nil show ?thesis by simp
next
  case (Cons x ys)
  assume s: "set xs = {a}" and d: "distinct xs"
  from s Cons have x: "x = a" by auto
  have "ys = []"
  proof (cases ys)
    case Nil
    then show ?thesis .
  next
    case (Cons y zs)
    with \<open>xs = x # ys\<close> s have "y = a" by auto
    with Cons \<open>xs = x # ys\<close> d x show ?thesis by simp
  qed
  with Cons x show ?thesis by simp
qed


subsection \<open>Disabling with another overlay present\<close>

text \<open>
  Claim C9 (disable keeps the other overlay). Let the device-level scan give the
  set of the overlay name and \<^verbatim>\<open>other\<close>, and let the application-level scan
  succeed. Then \<^verbatim>\<open>control_uart("disable")\<close> makes exactly one write: an update of
  the device variable found by the scan (the last matching one), to the value
  \<^verbatim>\<open>"other"\<close>. The iteration at line 158 is over a one-element set, which has
  one order.
\<close>

theorem disable_keeps_other:
  assumes "find_dtoverlay_config (device_vars balena)
             = Inr (Some {UART_OVERLAY, ''other''}, dt_overlay_var_id)"
    and "find_dtoverlay_config (app_vars balena) = Inr (app_dt_overlays, app_var_id)"
    and "set (iter {''other''}) = {''other''}" and "distinct (iter {''other''})"
  shows "control_uart iter env balena ''disable''
           = (Inr (Updated (dquote # ''other'' @ [dquote])),
              reads env @ [Update Device dt_overlay_var_id (dquote # ''other'' @ [dquote])])
     \<and> filter is_write (snd (control_uart iter env balena ''disable''))
           = [Update Device dt_overlay_var_id (dquote # ''other'' @ [dquote])]
     \<and> dt_overlay_var_id
           = map_option (\<lambda>v. str_int (var_id v)) (last_dtoverlay (device_vars balena))
     \<and> dt_overlay_var_id \<noteq> None"
proof -
  have v: "''disable'' \<in> set [''enable'', ''disable'']" by simp
  have it: "iter {''other''} = [''other'']"
    by (rule singleton_iteration [OF assms(3) assms(4)])
  have new: "{UART_OVERLAY, ''other''} - {UART_OVERLAY} = {''other''}"
    by (auto simp: UART_OVERLAY_def)
  have ne: "{''other''} \<noteq> {UART_OVERLAY, ''other''}"
    by (auto simp: UART_OVERLAY_def)
  have low: "lower ''disable'' \<noteq> ''enable''"
    by (simp add: lower_def lower_char_def)
  have r: "reconcile iter (BALENA_DEVICE_UUID env) ''disable''
             (Some {UART_OVERLAY, ''other''}, dt_overlay_var_id) app_dt_overlays
           = (Inr (Updated (dquote # ''other'' @ [dquote])),
              [Update Device dt_overlay_var_id (dquote # ''other'' @ [dquote])])"
    using ne
    by (simp add: reconcile_def effective_current_def new_dt_overlay_def low set_sub_def
          new it dt_overlay_string_def Let_def)
  have run: "control_uart iter env balena ''disable''
           = (Inr (Updated (dquote # ''other'' @ [dquote])),
              reads env @ [Update Device dt_overlay_var_id (dquote # ''other'' @ [dquote])])"
    by (simp add: control_uart_valid [OF v assms(1) assms(2)] r)
  have ident: "dt_overlay_var_id
           = map_option (\<lambda>v. str_int (var_id v)) (last_dtoverlay (device_vars balena))"
    by (rule find_dtoverlay_config_id(1) [OF assms(1)])
  have "last_dtoverlay (device_vars balena) \<noteq> None"
    using find_dtoverlay_config_id(2) [OF assms(1)] by simp
  with ident have "dt_overlay_var_id \<noteq> None" by simp
  with run ident show ?thesis by (simp add: reads_no_write)
qed

theorem disable_keeps_other_witness:
  "control_uart (\<lambda>S. [''other''])
      \<lparr>BALENA_API_KEY = Some ''key'', BALENA_DEVICE_UUID = Some ''uuid'',
       BALENA_APP_ID = Some ''app''\<rparr>
      \<lparr>device_vars = [\<lparr>var_id = 42, var_name = ''RESIN_HOST_CONFIG_dtoverlay'',
          var_value = [dquote] @ ''disable-bt'' @ [dquote] @ '','' @ [dquote] @ ''other'' @ [dquote]\<rparr>],
       app_vars = []\<rparr> ''disable''
   = (Inr (Updated (dquote # ''other'' @ [dquote])),
      [Login (Some ''key''), GetAll Device (Some ''uuid''), GetAll Application (Some ''app''),
       Update Device (Some ''42'') (dquote # ''other'' @ [dquote])])"
proof -
  let ?r = "\<lparr>device_vars = [\<lparr>var_id = 42, var_name = ''RESIN_HOST_CONFIG_dtoverlay'',
          var_value = [dquote] @ ''disable-bt'' @ [dquote] @ '','' @ [dquote] @ ''other'' @ [dquote]\<rparr>],
       app_vars = []\<rparr>"
  have d: "find_dtoverlay_config (device_vars ?r)
             = Inr (Some {UART_OVERLAY, ''other''}, Some ''42'')"
    by code_simp
  have a: "find_dtoverlay_config (app_vars ?r) = Inr (None, None)"
    by code_simp
  show ?thesis
    using disable_keeps_other [OF d a, of "\<lambda>S. [''other'']"
      "\<lparr>BALENA_API_KEY = Some ''key'', BALENA_DEVICE_UUID = Some ''uuid'',
       BALENA_APP_ID = Some ''app''\<rparr>"]
    by (simp add: reads_def)
qed

subsection \<open>Scan order\<close>

text \<open>
  Claim C5 (the last match wins), amended. If the value of every entry named by
  one of the two aliases decodes without error, \<open>find_dtoverlay_config\<close>
  returns the decoded value and the id of the last such entry in sequence order
  (and \<^verbatim>\<open>(None, None)\<close> when there is none); and whenever \<open>control_uart\<close> issues
  an update, it is of the id of the last such device-level entry. Without the
  condition the scan can raise at an earlier entry, as the counterexample after
  the witness shows: its first value has a missing comma.
\<close>

theorem last_match_wins:
  assumes "\<forall>v\<in>set variable_list. is_dtoverlay v \<longrightarrow> (\<exists>S. decode_value (var_value v) = Inr S)"
  shows "find_dtoverlay_config variable_list =
           (case last_dtoverlay variable_list of
              None \<Rightarrow> Inr (None, None)
            | Some v \<Rightarrow>
                (case decode_value (var_value v) of
                   Inl err \<Rightarrow> Inl err
                 | Inr S \<Rightarrow> Inr (Some S, Some (str_int (var_id v)))))
     \<and> (\<forall>c\<in>set (snd (control_uart iter env \<lparr>device_vars = variable_list, app_vars = app_list\<rparr> control)).
          \<forall>i s. c = Update Device i s \<longrightarrow>
            (\<exists>v. last_dtoverlay variable_list = Some v \<and> i = Some (str_int (var_id v))))"
proof (intro conjI ballI allI impI)
  from find_loop_total [OF assms, of "(None, None)"] obtain res
    where res: "find_loop variable_list (None, None) = Inr res" by blast
  from find_loop_last [OF res] res
  show "find_dtoverlay_config variable_list =
           (case last_dtoverlay variable_list of
              None \<Rightarrow> Inr (None, None)
            | Some v \<Rightarrow>
                (case decode_value (var_value v) of
                   Inl err \<Rightarrow> Inl err
                 | Inr S \<Rightarrow> Inr (Some S, Some (str_int (var_id v)))))"
    by (auto simp: find_dtoverlay_config_def split: option.splits)
next
  fix c i s
  let ?r = "\<lparr>device_vars = variable_list, app_vars = app_list\<rparr>"
  assume c: "c \<in> set (snd (control_uart iter env ?r control))" and u: "c = Update Device i s"
  from control_uart_calls [OF c] u obtain dev app
    where dev: "find_dtoverlay_config variable_list = Inr dev"
      and w: "c \<in> set (snd (reconcile iter (BALENA_DEVICE_UUID env) control dev app))"
    by (auto simp: reads_def)
  from reconcile_writes [OF w] u have i: "i = snd dev" and some: "fst dev \<noteq> None" by auto
  obtain d j where dj: "dev = (d, j)" by (cases dev)
  from find_dtoverlay_config_id [of variable_list d j] dev dj i some
  show "\<exists>v. last_dtoverlay variable_list = Some v \<and> i = Some (str_int (var_id v))"
    by auto
qed


theorem last_match_wins_witness:
  "find_dtoverlay_config
     [\<lparr>var_id = 1, var_name = ''BALENA_HOST_CONFIG_dtoverlay'', var_value = ''vc4-kms-v3d''\<rparr>,
      \<lparr>var_id = 2, var_name = ''RESIN_HOST_CONFIG_dtoverlay'',
       var_value = [dquote] @ ''disable-bt'' @ [dquote] @ '','' @ [dquote] @ ''other'' @ [dquote]\<rparr>]
   = Inr (Some {''disable-bt'', ''other''}, Some ''2'')
   \<and> snd (control_uart (\<lambda>S. [''other''])
        \<lparr>BALENA_API_KEY = None, BALENA_DEVICE_UUID = Some ''uuid'', BALENA_APP_ID = None\<rparr>
        \<lparr>device_vars =
           [\<lparr>var_id = 1, var_name = ''BALENA_HOST_CONFIG_dtoverlay'', var_value = ''vc4-kms-v3d''\<rparr>,
            \<lparr>var_id = 2, var_name = ''RESIN_HOST_CONFIG_dtoverlay'',
             var_value = [dquote] @ ''disable-bt'' @ [dquote] @ '','' @ [dquote] @ ''other'' @ [dquote]\<rparr>],
         app_vars = []\<rparr> ''disable'')
     = [Login None, GetAll Device (Some ''uuid''), GetAll Application None,
        Update Device (Some ''2'') ([dquote] @ ''other'' @ [dquote])]"
proof -
  let ?v1 = "\<lparr>var_id = 1, var_name = ''BALENA_HOST_CONFIG_dtoverlay'', var_value = ''vc4-kms-v3d''\<rparr>"
  let ?v2 = "\<lparr>var_id = 2, var_name = ''RESIN_HOST_CONFIG_dtoverlay'',
       var_value = [dquote] @ ''disable-bt'' @ [dquote] @ '','' @ [dquote] @ ''other'' @ [dquote]\<rparr>"
  have d1: "decode_value (var_value ?v1) = Inr {''vc4-kms-v3d''}" by code_simp
  have d2: "decode_value (var_value ?v2) = Inr {''disable-bt'', ''other''}" by code_simp
  have l: "last_dtoverlay [?v1, ?v2] = Some ?v2" by code_simp
  have i: "str_int (var_id ?v2) = ''2''" by code_simp
  have h: "\<forall>v\<in>set [?v1, ?v2]. is_dtoverlay v \<longrightarrow> (\<exists>S. decode_value (var_value v) = Inr S)"
    using d1 d2 by simp
  have calls: "snd (control_uart (\<lambda>S. [''other''])
        \<lparr>BALENA_API_KEY = None, BALENA_DEVICE_UUID = Some ''uuid'', BALENA_APP_ID = None\<rparr>
        \<lparr>device_vars = [?v1, ?v2], app_vars = []\<rparr> ''disable'')
     = [Login None, GetAll Device (Some ''uuid''), GetAll Application None,
        Update Device (Some ''2'') ([dquote] @ ''other'' @ [dquote])]"
    by code_simp
  have "find_dtoverlay_config [?v1, ?v2] = Inr (Some {''disable-bt'', ''other''}, Some ''2'')"
    using last_match_wins [OF h] by (simp only: l d2 i option.case sum.case)
  with calls show ?thesis by simp
qed

theorem malformed_earlier_value_counterexample:
  "find_dtoverlay_config
     [\<lparr>var_id = 1, var_name = ''BALENA_HOST_CONFIG_dtoverlay'',
       var_value = [dquote] @ ''vc4-kms-v3d'' @ [dquote] @ '' '' @ [dquote] @ ''dwc2'' @ [dquote]\<rparr>,
      \<lparr>var_id = 2, var_name = ''BALENA_HOST_CONFIG_dtoverlay'', var_value = ''disable-bt''\<rparr>]
   = Inl JSONDecodeError
   \<and> find_dtoverlay_config
     [\<lparr>var_id = 1, var_name = ''BALENA_HOST_CONFIG_dtoverlay'',
       var_value = [dquote] @ ''vc4-kms-v3d'' @ [dquote] @ '' '' @ [dquote] @ ''dwc2'' @ [dquote]\<rparr>,
      \<lparr>var_id = 2, var_name = ''BALENA_HOST_CONFIG_dtoverlay'', var_value = ''disable-bt''\<rparr>]
   \<noteq> Inr (Some {''disable-bt''}, Some ''2'')
   \<and> decode_value ''disable-bt'' = Inr {''disable-bt''}
   \<and> str_int 2 = ''2''"
  by code_simp

subsection \<open>Enabling twice\<close>

lemma lower_enable: "lower ''enable'' = ''enable''"
  by (simp add: lower_def lower_char_def)

lemma reconcile_enable_present:
  "UART_OVERLAY \<in> D \<Longrightarrow>
     reconcile iter u ''enable'' (Some D, i) app = (Inr Unchanged, [])"
  by (simp add: reconcile_def effective_current_def new_dt_overlay_def lower_enable set_or_def
        insert_absorb)

lemma reconcile_enable_absent:
  "effective_current d app = (ex, Some S) \<Longrightarrow> UART_OVERLAY \<notin> S \<Longrightarrow>
     reconcile iter u ''enable'' (d, i) app =
       (let w = dt_overlay_string (iter (S \<union> {UART_OVERLAY}))
        in if ex then (Inr (Updated w), [Update Device i w])
           else (Inr (Created w), [Create Device u ''BALENA_HOST_CONFIG_dtoverlay'' w]))"
  by (auto simp: reconcile_def new_dt_overlay_def lower_enable set_or_def Let_def)

lemma UART_OVERLAY_safe: "list_all json_safe UART_OVERLAY"
  by (simp add: UART_OVERLAY_def json_safe_def)

lemma find_dtoverlay_config_last_entry:
  assumes "find_dtoverlay_config pre = Inr p" and "is_dtoverlay v"
    and "decode_value (var_value v) = Inr D" and "filter is_dtoverlay post = []"
  shows "find_dtoverlay_config (pre @ v # post) = Inr (Some D, Some (str_int (var_id v)))"
  using assms
  by (simp add: find_dtoverlay_config_def find_loop_append find_loop_no_dtoverlay)

text \<open>
  Claim C8 (enable is idempotent over two runs), amended. Let the effective
  current set \<open>S\<close> of a first run not hold the overlay name, and let no token of
  \<open>S\<close> hold a double quote, a backslash or a control character. The first
  \<^verbatim>\<open>control_uart("enable")\<close> writes \<open>w\<close>, the encoding of \<open>S\<close> with the overlay name
  added, in whatever order the set is iterated: by an update when a
  device-level set existed, by a create otherwise. In a second run that reads
  \<open>w\<close> back as the value of the last matching device-level variable (the
  entries before it and the application-level entries scanning without
  error), the desired set equals the current set and no write is made. Without
  the condition on the tokens the written value need not decode: the
  counterexample after the witness starts from the one token \<^verbatim>\<open>a"b\<close>, and the
  second run raises \<^verbatim>\<open>JSONDecodeError\<close> for both orders of iteration.
\<close>

theorem enable_twice:
  assumes dev1: "find_dtoverlay_config (device_vars balena) = Inr (device_dt_overlays, dt_overlay_var_id)"
    and app1: "find_dtoverlay_config (app_vars balena) = Inr (app_dt_overlays, app_var_id)"
    and cur: "effective_current device_dt_overlays app_dt_overlays = (device_overlay_exists, Some S)"
    and absent: "UART_OVERLAY \<notin> S"
    and safe: "\<forall>t\<in>S. list_all json_safe t"
    and order: "set (iter (S \<union> {UART_OVERLAY})) = S \<union> {UART_OVERLAY}"
    and w: "w = dt_overlay_string (iter (S \<union> {UART_OVERLAY}))"
    and dev2: "device_vars balena' = pre @ v # post"
    and pre: "find_dtoverlay_config pre = Inr p"
    and v: "is_dtoverlay v" "var_value v = w"
    and post: "filter is_dtoverlay post = []"
    and app2: "find_dtoverlay_config (app_vars balena') = Inr (app_dt_overlays', app_var_id')"
  shows "control_uart iter env balena ''enable'' =
           (if device_overlay_exists
            then (Inr (Updated w), reads env @ [Update Device dt_overlay_var_id w])
            else (Inr (Created w),
                  reads env @ [Create Device (BALENA_DEVICE_UUID env)
                                 ''BALENA_HOST_CONFIG_dtoverlay'' w]))
     \<and> control_uart iter' env' balena' ''enable'' = (Inr Unchanged, reads env')"
proof
  have c: "''enable'' \<in> set [''enable'', ''disable'']" by simp
  show "control_uart iter env balena ''enable'' =
           (if device_overlay_exists
            then (Inr (Updated w), reads env @ [Update Device dt_overlay_var_id w])
            else (Inr (Created w),
                  reads env @ [Create Device (BALENA_DEVICE_UUID env)
                                 ''BALENA_HOST_CONFIG_dtoverlay'' w]))"
    by (simp add: control_uart_valid [OF c dev1 app1] reconcile_enable_absent [OF cur absent]
          w Let_def)
  let ?xs = "iter (S \<union> {UART_OVERLAY})"
  have xs_safe: "list_all (list_all json_safe) ?xs"
    using safe order UART_OVERLAY_safe by (auto simp: list_all_iff)
  have "UART_OVERLAY \<in> set ?xs" using order by simp
  moreover have une: "UART_OVERLAY \<noteq> []" by (simp add: UART_OVERLAY_def)
  ultimately have "UART_OVERLAY \<in> set (filter (\<lambda>t. t \<noteq> []) ?xs)" by simp
  then have ne: "filter (\<lambda>t. t \<noteq> []) ?xs \<noteq> []"
    by (metis empty_iff empty_set)
  have dec: "decode_value (var_value v) = Inr (set ?xs - {[]})"
    using decode_dt_overlay_string [OF xs_safe ne] v(2) w by simp
  have mem: "UART_OVERLAY \<in> set ?xs - {[]}" using order une by simp
  have d2: "find_dtoverlay_config (device_vars balena')
      = Inr (Some (set ?xs - {[]}), Some (str_int (var_id v)))"
    unfolding dev2 by (rule find_dtoverlay_config_last_entry [OF pre v(1) dec post])
  show "control_uart iter' env' balena' ''enable'' = (Inr Unchanged, reads env')"
    unfolding control_uart_valid [OF c d2 app2] fst_conv reconcile_enable_present [OF mem]
    by simp
qed


theorem enable_twice_witness:
  "control_uart (\<lambda>S. [''vc4-kms-v3d'', ''disable-bt''])
      \<lparr>BALENA_API_KEY = Some ''key'', BALENA_DEVICE_UUID = Some ''uuid'',
       BALENA_APP_ID = Some ''app''\<rparr>
      \<lparr>device_vars = [\<lparr>var_id = 7, var_name = ''BALENA_HOST_CONFIG_dtoverlay'',
                        var_value = ''vc4-kms-v3d''\<rparr>],
       app_vars = []\<rparr> ''enable''
    = (Inr (Updated ([dquote] @ ''vc4-kms-v3d'' @ [dquote] @ '','' @ [dquote] @ ''disable-bt'' @ [dquote])),
       [Login (Some ''key''), GetAll Device (Some ''uuid''), GetAll Application (Some ''app''),
        Update Device (Some ''7'')
          ([dquote] @ ''vc4-kms-v3d'' @ [dquote] @ '','' @ [dquote] @ ''disable-bt'' @ [dquote])])
   \<and> control_uart (\<lambda>S. [])
      \<lparr>BALENA_API_KEY = Some ''key'', BALENA_DEVICE_UUID = Some ''uuid'',
       BALENA_APP_ID = Some ''app''\<rparr>
      \<lparr>device_vars = [\<lparr>var_id = 7, var_name = ''BALENA_HOST_CONFIG_dtoverlay'',
          var_value = [dquote] @ ''vc4-kms-v3d'' @ [dquote] @ '','' @ [dquote] @ ''disable-bt'' @ [dquote]\<rparr>],
       app_vars = []\<rparr> ''enable''
    = (Inr Unchanged,
       [Login (Some ''key''), GetAll Device (Some ''uuid''), GetAll Application (Some ''app'')])"
proof -
  let ?iter = "\<lambda>S :: string set. [''vc4-kms-v3d'', ''disable-bt'']"
  let ?env = "\<lparr>BALENA_API_KEY = Some ''key'', BALENA_DEVICE_UUID = Some ''uuid'',
       BALENA_APP_ID = Some ''app''\<rparr>"
  let ?w = "[dquote] @ ''vc4-kms-v3d'' @ [dquote] @ '','' @ [dquote] @ ''disable-bt'' @ [dquote]"
  let ?r1 = "\<lparr>device_vars = [\<lparr>var_id = 7, var_name = ''BALENA_HOST_CONFIG_dtoverlay'',
                        var_value = ''vc4-kms-v3d''\<rparr>], app_vars = []\<rparr>"
  let ?v = "\<lparr>var_id = 7, var_name = ''BALENA_HOST_CONFIG_dtoverlay'', var_value = ?w\<rparr>"
  let ?r2 = "\<lparr>device_vars = [?v], app_vars = []\<rparr>"
  have dev1: "find_dtoverlay_config (device_vars ?r1) = Inr (Some {''vc4-kms-v3d''}, Some ''7'')"
    by code_simp
  have app1: "find_dtoverlay_config (app_vars ?r1) = Inr (None, None)"
    by code_simp
  have cur: "effective_current (Some {''vc4-kms-v3d''}) None = (True, Some {''vc4-kms-v3d''})"
    by (simp add: effective_current_def)
  have absent: "UART_OVERLAY \<notin> {''vc4-kms-v3d''}"
    by (simp add: UART_OVERLAY_def)
  have safe: "\<forall>t\<in>{''vc4-kms-v3d''}. list_all json_safe t"
    by (simp add: json_safe_def)
  have order: "set (?iter ({''vc4-kms-v3d''} \<union> {UART_OVERLAY})) = {''vc4-kms-v3d''} \<union> {UART_OVERLAY}"
    by (auto simp: UART_OVERLAY_def)
  have w: "?w = dt_overlay_string (?iter ({''vc4-kms-v3d''} \<union> {UART_OVERLAY}))"
    by (simp add: dt_overlay_string_def)
  have dev2: "device_vars ?r2 = [] @ ?v # []" by simp
  have pre: "find_dtoverlay_config [] = Inr (None, None)"
    by (simp add: find_dtoverlay_config_def)
  have v: "is_dtoverlay ?v" "var_value ?v = ?w"
    by (simp_all add: is_dtoverlay_def)
  have post: "filter is_dtoverlay [] = []" by simp
  have app2: "find_dtoverlay_config (app_vars ?r2) = Inr (None, None)"
    by code_simp
  show ?thesis
    using enable_twice [OF dev1 app1 cur absent safe order w dev2 pre v post app2,
        of ?env "\<lambda>S. []" ?env]
    by (simp add: reads_def)
qed

theorem enable_twice_counterexample:
  "control_uart (\<lambda>S. [[CHR ''a'', dquote, CHR ''b''], ''disable-bt''])
      \<lparr>BALENA_API_KEY = None, BALENA_DEVICE_UUID = None, BALENA_APP_ID = None\<rparr>
      \<lparr>device_vars = [\<lparr>var_id = 7, var_name = ''BALENA_HOST_CONFIG_dtoverlay'',
                        var_value = [CHR ''a'', dquote, CHR ''b'']\<rparr>],
       app_vars = []\<rparr> ''enable''
    = (Inr (Updated ([dquote, CHR ''a'', dquote, CHR ''b'', dquote] @ '','' @ [dquote] @ ''disable-bt'' @ [dquote])),
       [Login None, GetAll Device None, GetAll Application None,
        Update Device (Some ''7'')
          ([dquote, CHR ''a'', dquote, CHR ''b'', dquote] @ '','' @ [dquote] @ ''disable-bt'' @ [dquote])])
   \<and> control_uart (\<lambda>S. [''disable-bt'', [CHR ''a'', dquote, CHR ''b'']])
      \<lparr>BALENA_API_KEY = None, BALENA_DEVICE_UUID = None, BALENA_APP_ID = None\<rparr>
      \<lparr>device_vars = [\<lparr>var_id = 7, var_name = ''BALENA_HOST_CONFIG_dtoverlay'',
          var_value = [dquote, CHR ''a'', dquote, CHR ''b'', dquote] @ '','' @ [dquote] @ ''disable-bt'' @ [dquote]\<rparr>],
       app_vars = []\<rparr> ''enable''
    = (Inl JSONDecodeError, [Login None, GetAll Device None])
   \<and> control_uart (\<lambda>S. [''disable-bt'', [CHR ''a'', dquote, CHR ''b'']])
      \<lparr>BALENA_API_KEY = None, BALENA_DEVICE_UUID = None, BALENA_APP_ID = None\<rparr>
      \<lparr>device_vars = [\<lparr>var_id = 7, var_name = ''BALENA_HOST_CONFIG_dtoverlay'',
                        var_value = [CHR ''a'', dquote, CHR ''b'']\<rparr>],
       app_vars = []\<rparr> ''enable''
    = (Inr (Updated ([dquote] @ ''disable-bt'' @ [dquote] @ '','' @ [dquote, CHR ''a'', dquote, CHR ''b'', dquote])),
       [Login None, GetAll Device None, GetAll Application None,
        Update Device (Some ''7'')
          ([dquote] @ ''disable-bt'' @ [dquote] @ '','' @ [dquote, CHR ''a'', dquote, CHR ''b'', dquote])])
   \<and> control_uart (\<lambda>S. [''disable-bt'', [CHR ''a'', dquote, CHR ''b'']])
      \<lparr>BALENA_API_KEY = None, BALENA_DEVICE_UUID = None, BALENA_APP_ID = None\<rparr>
      \<lparr>device_vars = [\<lparr>var_id = 7, var_name = ''BALENA_HOST_CONFIG_dtoverlay'',
          var_value = [dquote] @ ''disable-bt'' @ [dquote] @ '','' @ [dquote, CHR ''a'', dquote, CHR ''b'', dquote]\<rparr>],
       app_vars = []\<rparr> ''enable''
    = (Inl JSONDecodeError, [Login None, GetAll Device None])"
  by code_simp

end
